theory Spec2Isabelle
  imports Complex_Main
begin

section \<open>Errors and arrays\<close>

text \<open>
  The notebooks raise nothing themselves; every failure is an exception of Python or of a
  library they call. The three that the modelled code can meet are values here.
\<close>

datatype error = ValueError | IndexError | ZeroDivisionError

text \<open>
  A numpy array is a shape and a buffer in row-major (C) order. \<open>np.array\<close> of a flat
  Python list gives a one-dimensional array; \<open>np.array\<close> of a list of rows gives a
  two-dimensional array when there is at least one row and all rows have one length, and
  the one-dimensional empty array of shape \<open>(0,)\<close> when there is no row. Rows of different
  lengths do not arise in the notebooks; numpy rejects them with \<open>ValueError\<close>.
\<close>

record 'a ndarray =
  shape :: "nat list"
  data :: "'a list"

definition np_array :: "'a list \<Rightarrow> 'a ndarray" where
  "np_array xs = \<lparr>shape = [length xs], data = xs\<rparr>"

definition np_array2 :: "'a list list \<Rightarrow> error + 'a ndarray" where
  "np_array2 rows =
     (case rows of
        [] \<Rightarrow> Inr \<lparr>shape = [0], data = []\<rparr>
      | r # rs \<Rightarrow>
          if list_all (\<lambda>r'. length r' = length r) rs
          then Inr \<lparr>shape = [length rows, length r], data = concat rows\<rparr>
          else Inl ValueError)"

text \<open>
  \<open>a.reshape((n1, n2))\<close> keeps the buffer and replaces the shape; numpy raises
  \<open>ValueError\<close> when the array does not hold exactly \<open>n1 * n2\<close> entries.
\<close>

definition reshape :: "'a ndarray \<Rightarrow> nat \<times> nat \<Rightarrow> error + 'a ndarray" where
  "reshape a s =
     (case s of (n1, n2) \<Rightarrow>
        if length (data a) = n1 * n2 then Inr \<lparr>shape = [n1, n2], data = data a\<rparr>
        else Inl ValueError)"

text \<open>
  \<open>a[i, j]\<close> on a two-dimensional array: the entry at offset \<open>i * n2 + j\<close> of the buffer,
  \<open>IndexError\<close> outside the shape (the loops of the notebooks use no negative index).
\<close>

definition item2 :: "'a ndarray \<Rightarrow> nat \<Rightarrow> nat \<Rightarrow> error + 'a" where
  "item2 a i j =
     (case shape a of
        [n1, n2] \<Rightarrow> if i < n1 \<and> j < n2 then Inr (data a ! (i * n2 + j)) else Inl IndexError
      | _ \<Rightarrow> Inl IndexError)"

text \<open>\<open>X[i]\<close> on a sample set, a sequence of rows: the row, or \<open>IndexError\<close>.\<close>

definition getitem :: "'a list \<Rightarrow> nat \<Rightarrow> error + 'a" where
  "getitem X i = (if i < length X then Inr (X ! i) else Inl IndexError)"

section \<open>Kernel matrix assembly\<close>

text \<open>
  \<^verbatim>\<open>
  def construct_K_matrix(K_values, X1, X2):
      n1 = len(X1)
      n2 = len(X2)
      return np.array(K_values).reshape((n1, n2))
  \<close>
\<close>

definition construct_K_matrix :: "'v list \<Rightarrow> 'a list \<Rightarrow> 'b list \<Rightarrow> error + 'v ndarray" where
  "construct_K_matrix K_values X1 X2 =
     (let n1 = length X1; n2 = length X2
      in reshape (np_array K_values) (n1, n2))"

text \<open>
  The two loops of the challenge workflow, with the kernel evaluator \<open>k\<close> and the loop
  bounds as parameters (the workflow passes \<open>N_TRAIN\<close> and \<open>N_TEST\<close>):
  \<^verbatim>\<open>
  K_values = []
  for i in range(n1):
      for j in range(n2):
          kernel_value = qkernel_circuit(X1[i], X2[j])
          K_values.append(kernel_value)
  \<close>
  The list \<open>js\<close> holds the indices the inner loop has still to visit, \<open>is\<close> those of the
  outer loop; \<open>acc\<close> is \<open>K_values\<close> so far. Indexing a sample set out of range ends the
  loops with \<open>IndexError\<close>.
\<close>

fun inner_loop ::
  "('a \<Rightarrow> 'b \<Rightarrow> 'v) \<Rightarrow> 'a list \<Rightarrow> 'b list \<Rightarrow> nat \<Rightarrow> nat list \<Rightarrow> 'v list \<Rightarrow> error + 'v list" where
  "inner_loop k X1 X2 i [] acc = Inr acc"
| "inner_loop k X1 X2 i (j # js) acc =
     (case getitem X1 i of
        Inl e \<Rightarrow> Inl e
      | Inr x1 \<Rightarrow>
          (case getitem X2 j of
             Inl e \<Rightarrow> Inl e
           | Inr x2 \<Rightarrow> inner_loop k X1 X2 i js (acc @ [k x1 x2])))"

fun outer_loop ::
  "('a \<Rightarrow> 'b \<Rightarrow> 'v) \<Rightarrow> 'a list \<Rightarrow> 'b list \<Rightarrow> nat list \<Rightarrow> nat \<Rightarrow> 'v list \<Rightarrow> error + 'v list" where
  "outer_loop k X1 X2 [] n2 acc = Inr acc"
| "outer_loop k X1 X2 (i # is) n2 acc =
     (case inner_loop k X1 X2 i [0..<n2] acc of
        Inl e \<Rightarrow> Inl e
      | Inr acc' \<Rightarrow> outer_loop k X1 X2 is n2 acc')"

definition kernel_values ::
  "('a \<Rightarrow> 'b \<Rightarrow> 'v) \<Rightarrow> nat \<Rightarrow> nat \<Rightarrow> 'a list \<Rightarrow> 'b list \<Rightarrow> error + 'v list" where
  "kernel_values k n1 n2 X1 X2 = outer_loop k X1 X2 [0..<n1] n2 []"

text \<open>The challenge's kernel matrix: the loops, then \<open>construct_K_matrix\<close> on their list.\<close>

definition challenge_K_matrix ::
  "('a \<Rightarrow> 'b \<Rightarrow> 'v) \<Rightarrow> nat \<Rightarrow> nat \<Rightarrow> 'a list \<Rightarrow> 'b list \<Rightarrow> error + 'v ndarray" where
  "challenge_K_matrix k n1 n2 X1 X2 =
     (case kernel_values k n1 n2 X1 X2 of
        Inl e \<Rightarrow> Inl e
      | Inr K_values \<Rightarrow> construct_K_matrix K_values X1 X2)"

text \<open>
  The tutorial's kernel matrix:
  \<^verbatim>\<open>
  def qkernel_matrix(X1, X2):
      return np.array([[qkernel_circuit(x1, x2) for x2 in X2] for x1 in X1])
  \<close>
\<close>

definition qkernel_matrix :: "('a \<Rightarrow> 'b \<Rightarrow> 'v) \<Rightarrow> 'a list \<Rightarrow> 'b list \<Rightarrow> error + 'v ndarray" where
  "qkernel_matrix k X1 X2 = np_array2 (map (\<lambda>x1. map (\<lambda>x2. k x1 x2) X2) X1)"

section \<open>Data loader and scaler\<close>

text \<open>
  \<open>load_wine(return_X_y=True)\<close> reads a table that is not part of the notebooks: a
  feature matrix (one row per wine) and a label vector. It is a parameter of the loader,
  the pair \<open>(features, labels)\<close>. A feature matrix is the list of its rows.

  \<open>features[:, lo:hi]\<close> keeps the columns \<open>lo \<le> c < hi\<close> of every row.
\<close>

definition slice_columns :: "nat \<Rightarrow> nat \<Rightarrow> 'a list list \<Rightarrow> 'a list list" where
  "slice_columns lo hi rows = map (\<lambda>row. take (hi - lo) (drop lo row)) rows"

text \<open>
  \<open>a[idx]\<close> with a boolean array \<open>idx\<close> keeps the entries (rows) of \<open>a\<close> where \<open>idx\<close>
  is true; numpy raises \<open>IndexError\<close> when the two lengths differ.
\<close>

definition boolean_index :: "'a list \<Rightarrow> bool list \<Rightarrow> error + 'a list" where
  "boolean_index xs idx =
     (if length idx = length xs then Inr (map fst (filter snd (zip xs idx)))
      else Inl IndexError)"

text \<open>
  \<open>MinMaxScaler((lo, hi))\<close> over the reals. \<open>fit\<close> takes, for every column, the least
  and the greatest value, and keeps \<open>scale_ = (hi - lo) / (max - min)\<close> (a column whose
  range is zero is divided by one instead) and \<open>min_ = lo - min * scale_\<close>; it raises
  \<open>ValueError\<close> when \<open>lo \<ge> hi\<close> and when there is no row. \<open>transform\<close> maps an entry
  \<open>x\<close> of column \<open>c\<close> to \<open>x * scale_[c] + min_[c]\<close>, and raises \<open>ValueError\<close> on a
  row with another number of columns than the fitted data had.
\<close>

record MinMaxScaler =
  scaler_scale :: "real list"
  scaler_min :: "real list"

definition column :: "real list list \<Rightarrow> nat \<Rightarrow> real list" where
  "column X c = map (\<lambda>row. row ! c) X"

definition handle_zeros_in_scale :: "real \<Rightarrow> real" where
  "handle_zeros_in_scale d = (if d = 0 then 1 else d)"

definition fit :: "real \<times> real \<Rightarrow> real list list \<Rightarrow> error + MinMaxScaler" where
  "fit feature_range X =
     (case feature_range of (lo, hi) \<Rightarrow>
        if lo \<ge> hi then Inl ValueError
        else (case X of
           [] \<Rightarrow> Inl ValueError
         | r # rs \<Rightarrow>
             let n_features = length r;
                 data_min = map (\<lambda>c. fold min (column rs c) (r ! c)) [0..<n_features];
                 data_max = map (\<lambda>c. fold max (column rs c) (r ! c)) [0..<n_features];
                 data_range = map2 (-) data_max data_min;
                 scale = map (\<lambda>d. (hi - lo) / handle_zeros_in_scale d) data_range;
                 min' = map2 (\<lambda>m s. lo - m * s) data_min scale
             in Inr \<lparr>scaler_scale = scale, scaler_min = min'\<rparr>))"

definition transform :: "MinMaxScaler \<Rightarrow> real list list \<Rightarrow> error + real list list" where
  "transform scaler X =
     (if list_all (\<lambda>row. length row = length (scaler_scale scaler)) X
      then Inr (map (\<lambda>row. map (\<lambda>(x, s, m). x * s + m)
                  (zip row (zip (scaler_scale scaler) (scaler_min scaler)))) X)
      else Inl ValueError)"

text \<open>
  The challenge's loader:
  \<^verbatim>\<open>
  def get_data():
      features, labels = load_wine(return_X_y=True)
      X = features[:, 9:11]
      y = labels
      idx = (y < 2)
      y = y[idx]
      X = X[idx]
      scaler = MinMaxScaler((0, 2 * PI))
      scaler.fit(X)
      return scaler.transform(X), y
  \<close>
\<close>

definition get_data :: "real list list \<times> int list \<Rightarrow> error + (real list list \<times> int list)" where
  "get_data wine =
     (case wine of (features, labels) \<Rightarrow>
        let X = slice_columns 9 11 features;
            y = labels;
            idx = map (\<lambda>l. l < 2) y
        in (case boolean_index y idx of
              Inl e \<Rightarrow> Inl e
            | Inr y' \<Rightarrow>
               (case boolean_index X idx of
                  Inl e \<Rightarrow> Inl e
                | Inr X' \<Rightarrow>
                   (case fit (0, 2 * pi) X' of
                      Inl e \<Rightarrow> Inl e
                    | Inr scaler \<Rightarrow>
                       (case transform scaler X' of
                          Inl e \<Rightarrow> Inl e
                        | Inr Xs \<Rightarrow> Inr (Xs, y'))))))"

text \<open>The tutorial's loader is the same without the three lines that drop the third class.\<close>

definition get_data_tutorial ::
  "real list list \<times> int list \<Rightarrow> error + (real list list \<times> int list)" where
  "get_data_tutorial wine =
     (case wine of (features, labels) \<Rightarrow>
        let X = slice_columns 9 11 features;
            y = labels
        in (case fit (0, 2 * pi) X of
              Inl e \<Rightarrow> Inl e
            | Inr scaler \<Rightarrow>
               (case transform scaler X of
                  Inl e \<Rightarrow> Inl e
                | Inr Xs \<Rightarrow> Inr (Xs, y))))"

section \<open>Quantum kernel circuit\<close>

text \<open>
  The kernel circuit acts on two qubits (wires 0 and 1). A state of the device is the four
  amplitudes of the basis states 00, 01, 10 and 11 (wire 0 is the left bit). The gates
  that the two embedding templates of pennylane are made of, with their matrices as
  pennylane documents them:
  \<^item> \<open>RX(\<theta>)\<close> is \<open>[[cos (\<theta>/2), -i sin (\<theta>/2)], [-i sin (\<theta>/2), cos (\<theta>/2)]]\<close>,
  \<^item> \<open>RY(\<theta>)\<close> is \<open>[[cos (\<theta>/2), -sin (\<theta>/2)], [sin (\<theta>/2), cos (\<theta>/2)]]\<close>,
  \<^item> \<open>Hadamard\<close> is \<open>[[1, 1], [1, -1]] / sqrt 2\<close>,
  \<^item> \<open>MultiRZ(\<theta>)\<close> on both wires is diagonal, with \<open>exp (-i \<theta>/2)\<close> on 00 and 11 and
    \<open>exp (i \<theta>/2)\<close> on 01 and 10.
  The templates only ever name the wires 0 and 1.
\<close>

datatype state = State complex complex complex complex

datatype gate = RX real nat | RY real nat | Hadamard nat | MultiRZ real

text \<open>
  A one-qubit matrix \<open>[[ua, ub], [uc, ud]]\<close> applied to wire \<open>w\<close>: to wire 0 when
  \<open>w = 0\<close>, to wire 1 otherwise.
\<close>

fun apply_single ::
  "complex \<Rightarrow> complex \<Rightarrow> complex \<Rightarrow> complex \<Rightarrow> nat \<Rightarrow> state \<Rightarrow> state" where
  "apply_single ua ub uc ud w (State a b c d) =
     (if w = 0
      then State (ua * a + ub * c) (ua * b + ub * d) (uc * a + ud * c) (uc * b + ud * d)
      else State (ua * a + ub * b) (uc * a + ud * b) (ua * c + ub * d) (uc * c + ud * d))"

fun apply_gate :: "gate \<Rightarrow> state \<Rightarrow> state" where
  "apply_gate (RX \<theta> w) \<psi> =
     apply_single (complex_of_real (cos (\<theta> / 2))) (- \<i> * complex_of_real (sin (\<theta> / 2)))
                  (- \<i> * complex_of_real (sin (\<theta> / 2))) (complex_of_real (cos (\<theta> / 2))) w \<psi>"
| "apply_gate (RY \<theta> w) \<psi> =
     apply_single (complex_of_real (cos (\<theta> / 2))) (- complex_of_real (sin (\<theta> / 2)))
                  (complex_of_real (sin (\<theta> / 2))) (complex_of_real (cos (\<theta> / 2))) w \<psi>"
| "apply_gate (Hadamard w) \<psi> =
     apply_single (complex_of_real (1 / sqrt 2)) (complex_of_real (1 / sqrt 2))
                  (complex_of_real (1 / sqrt 2)) (- complex_of_real (1 / sqrt 2)) w \<psi>"
| "apply_gate (MultiRZ \<theta>) (State a b c d) =
     State (cis (- \<theta> / 2) * a) (cis (\<theta> / 2) * b) (cis (\<theta> / 2) * c) (cis (- \<theta> / 2) * d)"

text \<open>
  \<open>qml.adjoint(template)(...)\<close> runs the gates of the template in reverse order, each
  replaced by its adjoint: a rotation by the opposite angle; Hadamard is its own adjoint.
\<close>

fun adjoint_gate :: "gate \<Rightarrow> gate" where
  "adjoint_gate (RX \<theta> w) = RX (- \<theta>) w"
| "adjoint_gate (RY \<theta> w) = RY (- \<theta>) w"
| "adjoint_gate (Hadamard w) = Hadamard w"
| "adjoint_gate (MultiRZ \<theta>) = MultiRZ (- \<theta>)"

definition adjoint :: "gate list \<Rightarrow> gate list" where
  "adjoint ops = rev (map adjoint_gate ops)"

text \<open>
  \<open>AngleEmbedding(features, wires=range(2))\<close> rotates wire \<open>i\<close> by \<open>RX(features[i])\<close>;
  more features than wires are refused with \<open>ValueError\<close>.
\<close>

definition rotations :: "real list \<Rightarrow> gate list" where
  "rotations features = map (\<lambda>(x, w). RX x w) (zip features [0, 1])"

definition AngleEmbedding :: "real list \<Rightarrow> error + gate list" where
  "AngleEmbedding features =
     (if length features > 2 then Inl ValueError else Inr (rotations features))"

text \<open>
  \<open>QAOAEmbedding(features, weights, wires=range(2))\<close>: every layer of weights
  \<open>(w0, w1, w2)\<close> is the feature encoding (the \<open>RX\<close> rotations, and a Hadamard on a wire
  without a feature), then \<open>MultiRZ(w0)\<close> on both wires, \<open>RY(w1)\<close> on wire 0 and
  \<open>RY(w2)\<close> on wire 1; the feature encoding is repeated once more at the end.
  \<open>CIRCUIT_PARAMS\<close>, drawn at random by the notebook, has one layer.
\<close>

definition QAOAEmbedding :: "real list \<Rightarrow> (real \<times> real \<times> real) list \<Rightarrow> error + gate list" where
  "QAOAEmbedding features weights =
     (if length features > 2 then Inl ValueError
      else let encoding = rotations features @ map Hadamard [length features..<2]
           in Inr (concat (map (\<lambda>(w0, w1, w2). encoding @ [MultiRZ w0, RY w1 0, RY w2 1])
                      weights)
                   @ encoding))"

text \<open>
  The device (\<open>lightning.qubit\<close>, a simulator without noise) starts in the state 00 and
  applies the gates in order. \<open>qml.expval(OPERATOR)\<close>, with \<open>OPERATOR\<close> the projector onto
  00, is estimated from \<open>shots = 1000\<close> measurements: each shot finds 00 with the
  probability \<open>|amplitude of 00|\<^sup>2\<close>, and the result is the share of the shots that found
  it. The randomness of the device is an input: \<open>u i\<close> is the uniform random number in
  \<open>[0, 1)\<close> that decides shot \<open>i\<close>, which finds 00 when \<open>u i\<close> is below the probability.
\<close>

definition shots :: nat where
  "shots = 1000"

definition execute :: "gate list \<Rightarrow> state" where
  "execute ops = fold apply_gate ops (State 1 0 0 0)"

fun probability_00 :: "state \<Rightarrow> real" where
  "probability_00 (State a b c d) = (cmod a)\<^sup>2"

text \<open>The inner product of two states of the device (used in the proofs only).\<close>

fun inner :: "state \<Rightarrow> state \<Rightarrow> complex" where
  "inner (State a b c d) (State a' b' c' d') =
     cnj a * a' + cnj b * b' + cnj c * c' + cnj d * d'"

definition expval_OPERATOR :: "(nat \<Rightarrow> real) \<Rightarrow> state \<Rightarrow> real" where
  "expval_OPERATOR u \<psi> =
     real (length (filter (\<lambda>i. u i < probability_00 \<psi>) [0..<shots])) / real shots"

text \<open>
  The challenge's circuit:
  \<^verbatim>\<open>
  def qkernel_circuit(x1, x2):
      qml.AngleEmbedding(features=x1, wires=range(2))
      qml.adjoint(qml.AngleEmbedding)(features=x2, wires=range(2))
      return qml.expval(OPERATOR)
  \<close>
  (the solution notebook sends the same circuit to a hardware backend, whose noise is
  outside this model), and the tutorial's, with \<open>QAOAEmbedding\<close> and the weights
  \<open>CIRCUIT_PARAMS\<close> in place of \<open>AngleEmbedding\<close>.
\<close>

definition qkernel_circuit :: "(nat \<Rightarrow> real) \<Rightarrow> real list \<Rightarrow> real list \<Rightarrow> error + real" where
  "qkernel_circuit u x1 x2 =
     (case AngleEmbedding x1 of
        Inl e \<Rightarrow> Inl e
      | Inr ops1 \<Rightarrow>
          (case AngleEmbedding x2 of
             Inl e \<Rightarrow> Inl e
           | Inr ops2 \<Rightarrow> Inr (expval_OPERATOR u (execute (ops1 @ adjoint ops2)))))"

definition qkernel_circuit_tutorial ::
  "(real \<times> real \<times> real) list \<Rightarrow> (nat \<Rightarrow> real) \<Rightarrow> real list \<Rightarrow> real list \<Rightarrow> error + real" where
  "qkernel_circuit_tutorial CIRCUIT_PARAMS u x1 x2 =
     (case QAOAEmbedding x1 CIRCUIT_PARAMS of
        Inl e \<Rightarrow> Inl e
      | Inr ops1 \<Rightarrow>
          (case QAOAEmbedding x2 CIRCUIT_PARAMS of
             Inl e \<Rightarrow> Inl e
           | Inr ops2 \<Rightarrow> Inr (expval_OPERATOR u (execute (ops1 @ adjoint ops2)))))"

section \<open>Partition, classifier and workflow\<close>





text \<open>
  What the workflows call and the notebooks do not define is a parameter, the record
  \<open>externals\<close>: the wine table, sklearn's \<open>train_test_split(X, y, test_size, random_state,
  stratify)\<close> (its result is \<open>(X_train, X_test, y_train, y_test)\<close>), the kernel evaluator
  as a function of the two samples, and the classifier \<open>SVC().fit(K, y)\<close> and
  \<open>svc.predict(K)\<close>, with \<open>'svc\<close> the fitted classifier.
\<close>

type_synonym split = "real list list \<times> real list list \<times> int list \<times> int list"













section \<open>Example inputs\<close>

text \<open>
  A table in the format of the wine data (thirteen feature columns, classes 0, 1 and 2)
  with four wines; columns 9 and 10 are the colour intensity and the hue.
\<close>

definition wine_small :: "real list list \<times> int list" where
  "wine_small =
     ([[0, 0, 0, 0, 0, 0, 0, 0, 0, 1, 3, 0, 0],
       [0, 0, 0, 0, 0, 0, 0, 0, 0, 2, 5, 0, 0],
       [0, 0, 0, 0, 0, 0, 0, 0, 0, 9, 9, 0, 0],
       [0, 0, 0, 0, 0, 0, 0, 0, 0, 3, 4, 0, 0]],
      [0, 1, 2, 0])"














text \<open>Draws of the device for which a shot finds 00 exactly when its probability exceeds one half.\<close>

definition demo_draws :: "nat \<Rightarrow> real" where
  "demo_draws i = 1 / 2"

section \<open>Properties of the kernel matrix assembly\<close>

lemma flat_index_bound:
  fixes i j n1 n2 :: nat
  assumes "i < n1" and "j < n2"
  shows "i * n2 + j < n1 * n2"
proof -
  have "i * n2 + j < i * n2 + n2" using assms(2) by simp
  also have "\<dots> = Suc i * n2" by simp
  also have "\<dots> \<le> n1 * n2" using assms(1) by (intro mult_le_mono1) simp
  finally show ?thesis .
qed

lemma inner_loop_in_range:
  assumes "i < length X1" and "\<forall>j \<in> set js. j < length X2"
  shows "inner_loop k X1 X2 i js acc = Inr (acc @ map (\<lambda>j. k (X1 ! i) (X2 ! j)) js)"
  using assms by (induction js arbitrary: acc) (simp_all add: getitem_def)

lemma outer_loop_in_range:
  assumes "\<forall>i \<in> set is. i < length X1" and "n2 \<le> length X2"
  shows "outer_loop k X1 X2 is n2 acc =
           Inr (acc @ concat (map (\<lambda>i. map (\<lambda>j. k (X1 ! i) (X2 ! j)) [0..<n2]) is))"
  using assms by (induction "is" arbitrary: acc) (simp_all add: inner_loop_in_range)

lemma kernel_values_in_range:
  assumes "n1 \<le> length X1" and "n2 \<le> length X2"
  shows "kernel_values k n1 n2 X1 X2 =
           Inr (concat (map (\<lambda>i. map (\<lambda>j. k (X1 ! i) (X2 ! j)) [0..<n2]) [0..<n1]))"
  using assms by (simp add: kernel_values_def outer_loop_in_range)

lemma length_kernel_values:
  "length (concat (map (\<lambda>i. map (\<lambda>j. k (X1 ! i) (X2 ! j)) [0..<n2]) [0..<n1])) = n1 * n2"
  by (induction n1) simp_all

lemma nth_kernel_values:
  assumes "i < n1" and "j < n2"
  shows "concat (map (\<lambda>i. map (\<lambda>j. f i j) [0..<n2]) [0..<n1]) ! (i * n2 + j) = f i j"
  using assms(1)
proof (induction n1)
  case 0
  then show ?case by simp
next
  case (Suc n)
  let ?pre = "concat (map (\<lambda>i. map (\<lambda>j. f i j) [0..<n2]) [0..<n])"
  have len: "length ?pre = n * n2" by (induction n) simp_all
  show ?case
  proof (cases "i < n")
    case True
    then have "i * n2 + j < n * n2" using assms(2) by (rule flat_index_bound)
    then show ?thesis using Suc.IH [OF True] by (simp add: nth_append len)
  next
    case False
    with Suc.prems have "i = n" by simp
    then show ?thesis using assms(2) by (simp add: nth_append len)
  qed
qed

text \<open>
  C1. A flat sequence of \<open>n1 * n2\<close> kernel values, with \<open>n1\<close> the size of set A and \<open>n2\<close> the
  size of set B, is turned by \<open>construct_K_matrix\<close> into a matrix of shape \<open>(n1, n2)\<close>
  whose entry at position \<open>(i, j)\<close> is the value at flat index \<open>i * n2 + j\<close>. The sequence
  that the outer loop over A and the inner loop over B produce has this length, and the
  entry of its matrix at \<open>(i, j)\<close> is the kernel of the \<open>i\<close>-th sample of A and the \<open>j\<close>-th
  sample of B.
\<close>

theorem construct_K_matrix_row_major:
  "(length K_values = length X1 * length X2 \<longrightarrow>
      (\<exists>M. construct_K_matrix K_values X1 X2 = Inr M
           \<and> shape M = [length X1, length X2]
           \<and> (\<forall>i < length X1. \<forall>j < length X2.
                 item2 M i j = Inr (K_values ! (i * length X2 + j)))))
   \<and> (\<exists>K M. kernel_values k (length X1) (length X2) X1 X2 = Inr K
           \<and> length K = length X1 * length X2
           \<and> construct_K_matrix K X1 X2 = Inr M
           \<and> shape M = [length X1, length X2]
           \<and> (\<forall>i < length X1. \<forall>j < length X2. item2 M i j = Inr (k (X1 ! i) (X2 ! j))))"
proof
  show "length K_values = length X1 * length X2 \<longrightarrow>
      (\<exists>M. construct_K_matrix K_values X1 X2 = Inr M
           \<and> shape M = [length X1, length X2]
           \<and> (\<forall>i < length X1. \<forall>j < length X2.
                 item2 M i j = Inr (K_values ! (i * length X2 + j))))"
    by (simp add: construct_K_matrix_def reshape_def np_array_def item2_def)
next
  let ?K = "concat (map (\<lambda>i. map (\<lambda>j. k (X1 ! i) (X2 ! j)) [0..<length X2])
              [0..<length X1])"
  let ?M = "\<lparr>shape = [length X1, length X2], data = ?K\<rparr>"
  have K: "kernel_values k (length X1) (length X2) X1 X2 = Inr ?K"
    by (simp add: kernel_values_in_range)
  have len: "length ?K = length X1 * length X2" by (rule length_kernel_values)
  have M: "construct_K_matrix ?K X1 X2 = Inr ?M"
    using len by (simp add: construct_K_matrix_def reshape_def np_array_def Let_def)
  have "item2 ?M i j = Inr (k (X1 ! i) (X2 ! j))" if "i < length X1" "j < length X2" for i j
    using that nth_kernel_values [OF that, of "\<lambda>i j. k (X1 ! i) (X2 ! j)"]
    by (simp add: item2_def)
  with K len M show "\<exists>K M. kernel_values k (length X1) (length X2) X1 X2 = Inr K
           \<and> length K = length X1 * length X2
           \<and> construct_K_matrix K X1 X2 = Inr M
           \<and> shape M = [length X1, length X2]
           \<and> (\<forall>i < length X1. \<forall>j < length X2. item2 M i j = Inr (k (X1 ! i) (X2 ! j)))"
    by (intro exI [of _ ?K] exI [of _ ?M]) simp
qed

theorem construct_K_matrix_row_major_witness:
  "length [2, 20, 200, 3, 30, 300 :: int] = length [2, 3 :: int] * length [1, 10, 100 :: int]
   \<and> (\<exists>M. construct_K_matrix [2, 20, 200, 3, 30, 300 :: int] [2, 3 :: int] [1, 10, 100 :: int]
             = Inr M
           \<and> shape M = [2, 3] \<and> item2 M 1 2 = Inr 300)
   \<and> (\<exists>K M. kernel_values times 2 3 [2, 3 :: int] [1, 10, 100 :: int] = Inr K
           \<and> construct_K_matrix K [2, 3 :: int] [1, 10, 100 :: int] = Inr M
           \<and> shape M = [2, 3] \<and> item2 M 1 2 = Inr 300)"
proof -
  let ?K = "[2, 20, 200, 3, 30, 300 :: int]"
  let ?X1 = "[2, 3 :: int]"
  let ?X2 = "[1, 10, 100 :: int]"
  note c = construct_K_matrix_row_major [of ?K ?X1 ?X2 times]
  have h: "length ?K = length ?X1 * length ?X2" by simp
  from conjunct1 [OF c] h
  obtain M where m: "construct_K_matrix ?K ?X1 ?X2 = Inr M" "shape M = [length ?X1, length ?X2]"
    "\<forall>i < length ?X1. \<forall>j < length ?X2. item2 M i j = Inr (?K ! (i * length ?X2 + j))"
    by blast
  from m(3) have "item2 M 1 2 = Inr (?K ! (1 * length ?X2 + 2))" by simp
  then have m3: "item2 M 1 2 = Inr 300" by simp
  from conjunct2 [OF c]
  obtain K' M' where k: "kernel_values times (length ?X1) (length ?X2) ?X1 ?X2 = Inr K'"
    "construct_K_matrix K' ?X1 ?X2 = Inr M'" "shape M' = [length ?X1, length ?X2]"
    "\<forall>i < length ?X1. \<forall>j < length ?X2. item2 M' i j = Inr (times (?X1 ! i) (?X2 ! j))"
    by blast
  from k(4) have "item2 M' 1 2 = Inr (times (?X1 ! 1) (?X2 ! 2))" by simp
  then have k4: "item2 M' 1 2 = Inr 300" by simp
  have k1: "kernel_values times 2 3 ?X1 ?X2 = Inr K'"
    using k(1) by (simp add: numeral_2_eq_2 numeral_3_eq_3)
  have k3: "shape M' = [2, 3]" using k(3) by simp
  have m2: "shape M = [2, 3]" using m(2) by simp
  have "\<exists>M. construct_K_matrix ?K ?X1 ?X2 = Inr M \<and> shape M = [2, 3] \<and> item2 M 1 2 = Inr 300"
    using m(1) m2 m3 by blast
  moreover have "\<exists>K M. kernel_values times 2 3 ?X1 ?X2 = Inr K
           \<and> construct_K_matrix K ?X1 ?X2 = Inr M
           \<and> shape M = [2, 3] \<and> item2 M 1 2 = Inr 300"
    using k1 k(2) k3 k4 by blast
  ultimately show ?thesis using h by blast
qed

lemma construct_K_matrix_misaligned_example:
  "construct_K_matrix [10, 20, 11, 21, 12, 22 :: int] [''a'', ''b''] [True, False, True]
     = Inr \<lparr>shape = [2, 3], data = [10, 20, 11, 21, 12, 22]\<rparr>"
  by (simp add: construct_K_matrix_def reshape_def np_array_def)

text \<open>
  C5, as amended. \<open>construct_K_matrix\<close> does not look at the order of the flat sequence:
  whenever the sequence has \<open>n1 * n2\<close> values it returns them unchanged under the shape
  \<open>(n1, n2)\<close>, so a sequence in another order than row-major gives a mis-aligned matrix
  without any failure (\<open>construct_K_matrix_misaligned_example\<close> is a column-major one).
  A sequence of any other length is refused: the reshape raises \<open>ValueError\<close>.
\<close>

theorem construct_K_matrix_checks_size_only:
  "construct_K_matrix K_values X1 X2 =
     (if length K_values = length X1 * length X2
      then Inr \<lparr>shape = [length X1, length X2], data = K_values\<rparr>
      else Inl ValueError)"
  by (simp add: construct_K_matrix_def reshape_def np_array_def)

text \<open>
  C5 as stated fails: three values for two samples by two samples are not turned into a
  mis-aligned matrix, the call fails.
\<close>

theorem construct_K_matrix_size_mismatch_counterexample:
  "construct_K_matrix [1, 2, 3 :: int] [''a'', ''b''] [''c'', ''d''] = Inl ValueError"
  by (simp add: construct_K_matrix_def reshape_def np_array_def)

section \<open>The two kernel matrix constructions\<close>

lemma row_major_pairs:
  "concat (map (\<lambda>i. map (\<lambda>j. k (X1 ! i) (X2 ! j)) [0..<length X2]) [0..<length X1])
     = concat (map (\<lambda>x1. map (\<lambda>x2. k x1 x2) X2) X1)"
proof -
  have inner: "map (\<lambda>j. k x (X2 ! j)) [0..<length X2] = map (\<lambda>x2. k x x2) X2" for x
    by (simp add: map_nth [symmetric] map_equality_iff)
  have "map (\<lambda>i. map (\<lambda>x2. k (X1 ! i) x2) X2) [0..<length X1]
          = map (\<lambda>x1. map (\<lambda>x2. k x1 x2) X2) X1"
    by (simp add: map_equality_iff)
  then show ?thesis by (simp add: inner)
qed

lemma challenge_K_matrix_full:
  "challenge_K_matrix k (length X1) (length X2) X1 X2 =
     Inr \<lparr>shape = [length X1, length X2],
          data = concat (map (\<lambda>x1. map (\<lambda>x2. k x1 x2) X2) X1)\<rparr>"
proof -
  have "length (concat (map (\<lambda>x1. map (\<lambda>x2. k x1 x2) X2) X1)) = length X1 * length X2"
    using length_kernel_values [of k X1 X2 "length X2" "length X1"]
    by (simp add: row_major_pairs)
  then show ?thesis
    by (simp add: challenge_K_matrix_def kernel_values_in_range row_major_pairs
        construct_K_matrix_def reshape_def np_array_def)
qed

lemma qkernel_matrix_nonempty:
  assumes "X1 \<noteq> []"
  shows "qkernel_matrix k X1 X2 =
     Inr \<lparr>shape = [length X1, length X2],
          data = concat (map (\<lambda>x1. map (\<lambda>x2. k x1 x2) X2) X1)\<rparr>"
  using assms by (cases X1) (simp_all add: qkernel_matrix_def np_array2_def list_all_iff)

text \<open>
  C9, as amended. For every kernel function \<open>k\<close> and all sample sets \<open>X1\<close>, \<open>X2\<close> with
  \<open>X1\<close> not empty, the tutorial's \<open>qkernel_matrix\<close> and the challenge's construction
  (the two loops over all of \<open>X1\<close> and \<open>X2\<close>, then \<open>construct_K_matrix\<close>) both succeed
  and return the same array: shape \<open>(len(X1), len(X2))\<close>, entries in row-major order.
\<close>

theorem qkernel_matrix_eq_challenge:
  assumes "X1 \<noteq> []"
  shows "challenge_K_matrix k (length X1) (length X2) X1 X2 = qkernel_matrix k X1 X2
         \<and> qkernel_matrix k X1 X2 =
             Inr \<lparr>shape = [length X1, length X2],
                  data = concat (map (\<lambda>x1. map (\<lambda>x2. k x1 x2) X2) X1)\<rparr>"
  using assms by (simp add: challenge_K_matrix_full qkernel_matrix_nonempty)

theorem qkernel_matrix_eq_challenge_witness:
  "[3, 4 :: int] \<noteq> []
   \<and> challenge_K_matrix (\<lambda>x y. x * y) (length [3, 4 :: int]) (length [1, 2, 5 :: int])
         [3, 4 :: int] [1, 2, 5 :: int]
       = qkernel_matrix (\<lambda>x y. x * y) [3, 4 :: int] [1, 2, 5 :: int]
   \<and> qkernel_matrix (\<lambda>x y. x * y) [3, 4 :: int] [1, 2, 5 :: int]
       = Inr \<lparr>shape = [2, 3], data = [3, 6, 15, 4, 8, 20]\<rparr>"
proof -
  have h: "[3, 4 :: int] \<noteq> []" by simp
  from qkernel_matrix_eq_challenge [OF h, of "\<lambda>x y. x * y" "[1, 2, 5 :: int]"]
  show ?thesis by simp
qed

text \<open>
  C9 as stated fails on an empty \<open>X1\<close>: the tutorial's \<open>np.array([])\<close> has shape \<open>(0,)\<close>,
  the challenge's reshape gives shape \<open>(0, len(X2))\<close>.
\<close>

theorem qkernel_matrix_empty_counterexample:
  "qkernel_matrix times ([] :: int list) [1 :: int] = Inr \<lparr>shape = [0], data = []\<rparr>
   \<and> challenge_K_matrix times (length ([] :: int list)) (length [1 :: int])
         ([] :: int list) [1 :: int]
       = Inr \<lparr>shape = [0, 1], data = []\<rparr>"
  by (simp add: challenge_K_matrix_def kernel_values_def construct_K_matrix_def reshape_def
      np_array_def qkernel_matrix_def np_array2_def)

section \<open>Properties of the loader\<close>

lemma boolean_index_self: "boolean_index ys (map p ys) = Inr (filter p ys)"
proof -
  have "map fst (filter snd (zip ys (map p ys))) = filter p ys"
    by (induction ys) simp_all
  then show ?thesis by (simp add: boolean_index_def)
qed

lemma boolean_index_rows:
  assumes "length xs = length ys"
  shows "\<exists>zs. boolean_index xs (map p ys) = Inr zs \<and> length zs = length (filter p ys)
              \<and> set zs \<subseteq> set xs"
proof -
  have "length (map fst (filter snd (zip xs (map p ys)))) = length (filter p ys)
        \<and> set (map fst (filter snd (zip xs (map p ys)))) \<subseteq> set xs"
    using assms by (induction xs ys rule: list_induct2) auto
  then show ?thesis using assms by (simp add: boolean_index_def)
qed

lemma slice_columns_rows:
  assumes "\<forall>row \<in> set features. length row = n" and "11 \<le> n"
  shows "\<forall>row \<in> set (slice_columns 9 11 features). length row = 2"
  using assms by (auto simp: slice_columns_def)

lemma fold_min_Min: "fold min xs (a::real) = Min (insert a (set xs))"
  using Min.set_eq_fold [of a xs] by simp

lemma fold_max_Max: "fold max xs (a::real) = Max (insert a (set xs))"
  using Max.set_eq_fold [of a xs] by simp

lemma column_bounds:
  assumes "row \<in> set (r # rs)"
  shows "fold min (column rs c) (r ! c) \<le> row ! c
         \<and> row ! c \<le> fold max (column rs c) (r ! c)"
proof -
  have "row ! c \<in> insert (r ! c) (set (column rs c))"
    using assms by (auto simp: column_def)
  then show ?thesis
    by (simp add: fold_min_Min fold_max_Max)
qed

text \<open>One entry: \<open>x * scale_ + min_\<close> lies between the two ends of the feature range.\<close>

lemma scaled_in_range:
  fixes lo hi m M x :: real
  assumes "lo < hi" and "m \<le> x" and "x \<le> M"
  defines "s \<equiv> (hi - lo) / handle_zeros_in_scale (M - m)"
  shows "lo \<le> x * s + (lo - m * s) \<and> x * s + (lo - m * s) \<le> hi"
proof -
  have eq: "x * s + (lo - m * s) = lo + (x - m) * s" by (simp add: algebra_simps)
  have nonneg: "0 \<le> s"
    using assms(1-3) by (simp add: s_def handle_zeros_in_scale_def)
  have "0 \<le> (x - m) * s"
    using nonneg assms(2) by (intro mult_nonneg_nonneg) simp_all
  moreover have "(x - m) * s \<le> hi - lo"
  proof (cases "M = m")
    case True
    with assms(2,3) have "x = m" by simp
    then show ?thesis using assms(1) by simp
  next
    case False
    with assms(2,3) have pos: "0 < M - m" by simp
    then have s: "s = (hi - lo) / (M - m)" by (simp add: s_def handle_zeros_in_scale_def)
    have "(x - m) * (hi - lo) \<le> (M - m) * (hi - lo)"
      using assms(1,3) by (intro mult_right_mono) simp_all
    then show ?thesis using pos by (simp add: s field_simps)
  qed
  ultimately show ?thesis unfolding eq by simp
qed

text \<open>The greatest value of a column that is not constant is sent to \<open>hi\<close> itself.\<close>

lemma scaled_max_is_hi:
  fixes lo hi m M :: real
  assumes "m < M"
  shows "M * ((hi - lo) / handle_zeros_in_scale (M - m))
           + (lo - m * ((hi - lo) / handle_zeros_in_scale (M - m))) = hi"
proof -
  define s where "s = (hi - lo) / handle_zeros_in_scale (M - m)"
  have "(M - m) * s = hi - lo"
    using assms by (simp add: s_def handle_zeros_in_scale_def)
  moreover have "M * s + (lo - m * s) = lo + (M - m) * s"
    by (simp add: algebra_simps)
  ultimately show ?thesis unfolding s_def by simp
qed

lemma fit_Cons:
  assumes "lo < hi"
  shows "fit (lo, hi) (r # rs) =
     Inr \<lparr>scaler_scale = map (\<lambda>c. (hi - lo) / handle_zeros_in_scale
                (fold max (column rs c) (r ! c) - fold min (column rs c) (r ! c)))
              [0..<length r],
          scaler_min = map (\<lambda>c. lo - fold min (column rs c) (r ! c)
                * ((hi - lo) / handle_zeros_in_scale
                    (fold max (column rs c) (r ! c) - fold min (column rs c) (r ! c))))
              [0..<length r]\<rparr>"
  using assms
  by (simp add: fit_def Let_def zip_map_map zip_same_conv_map)

lemma fit_transform_range:
  assumes "lo < hi" and "X \<noteq> []" and "\<forall>row \<in> set X. length row = n"
  shows "\<exists>scaler Xs. fit (lo, hi) X = Inr scaler \<and> transform scaler X = Inr Xs
           \<and> length Xs = length X
           \<and> (\<forall>row \<in> set Xs. length row = n \<and> (\<forall>v \<in> set row. lo \<le> v \<and> v \<le> hi))"
proof -
  from assms(2) obtain r rs where X: "X = r # rs" by (cases X) auto
  define S where "S = map (\<lambda>c. (hi - lo) / handle_zeros_in_scale
                (fold max (column rs c) (r ! c) - fold min (column rs c) (r ! c)))
              [0..<length r]"
  define M where "M = map (\<lambda>c. lo - fold min (column rs c) (r ! c)
                * ((hi - lo) / handle_zeros_in_scale
                    (fold max (column rs c) (r ! c) - fold min (column rs c) (r ! c))))
              [0..<length r]"
  define scaler where "scaler = \<lparr>scaler_scale = S, scaler_min = M\<rparr>"
  define Xs where "Xs = map (\<lambda>row. map (\<lambda>(x, s, m). x * s + m) (zip row (zip S M))) X"
  have len_r: "length r = n" using assms(3) X by simp
  have lenS: "length S = n" and lenM: "length M = n" by (simp_all add: S_def M_def len_r)
  have fit: "fit (lo, hi) X = Inr scaler"
    unfolding X scaler_def S_def M_def using assms(1) by (rule fit_Cons)
  have tr: "transform scaler X = Inr Xs"
    using assms(3) by (simp add: transform_def scaler_def Xs_def lenS list_all_iff)
  have rows: "length row' = n \<and> (\<forall>v \<in> set row'. lo \<le> v \<and> v \<le> hi)"
    if "row' \<in> set Xs" for row'
  proof -
    from that obtain row where row: "row \<in> set X"
      and row': "row' = map (\<lambda>(x, s, m). x * s + m) (zip row (zip S M))"
      by (auto simp: Xs_def)
    have len_row: "length row = n" using assms(3) row by simp
    have "lo \<le> v \<and> v \<le> hi" if "v \<in> set row'" for v
    proof -
      from that obtain c where c: "c < n" and v: "v = row ! c * S ! c + M ! c"
        unfolding row' by (auto simp: in_set_conv_nth len_row lenS lenM)
      have b: "fold min (column rs c) (r ! c) \<le> row ! c
               \<and> row ! c \<le> fold max (column rs c) (r ! c)"
        using row unfolding X by (rule column_bounds)
      have Sc: "S ! c = (hi - lo) / handle_zeros_in_scale
                (fold max (column rs c) (r ! c) - fold min (column rs c) (r ! c))"
        using c by (simp add: S_def len_r)
      have Mc: "M ! c = lo - fold min (column rs c) (r ! c)
                * ((hi - lo) / handle_zeros_in_scale
                    (fold max (column rs c) (r ! c) - fold min (column rs c) (r ! c)))"
        using c by (simp add: M_def len_r)
      show ?thesis
        unfolding v Sc Mc
        using scaled_in_range [OF assms(1) conjunct1 [OF b] conjunct2 [OF b]] .
    qed
    then show ?thesis by (simp add: row' len_row lenS lenM)
  qed
  have "length Xs = length X" by (simp add: Xs_def)
  with fit tr rows show ?thesis by blast
qed

text \<open>
  What the challenge's loader returns on a table whose rows all have \<open>n \<ge> 11\<close> columns,
  with one label per row and at least one wine of the first two classes.
\<close>

lemma get_data_returns:
  assumes "length features = length labels"
    and "\<forall>row \<in> set features. length row = n" and "11 \<le> n"
    and "\<exists>l \<in> set labels. l < 2"
  shows "\<exists>X. get_data (features, labels) = Inr (X, filter (\<lambda>l. l < 2) labels)
           \<and> length X = length (filter (\<lambda>l. l < 2) labels)
           \<and> (\<forall>row \<in> set X. length row = 2 \<and> (\<forall>v \<in> set row. 0 \<le> v \<and> v \<le> 2 * pi))"
proof -
  let ?p = "\<lambda>l :: int. l < 2"
  have "length (slice_columns 9 11 features) = length labels"
    using assms(1) by (simp add: slice_columns_def)
  from boolean_index_rows [OF this, of ?p]
  obtain X' where X': "boolean_index (slice_columns 9 11 features) (map ?p labels) = Inr X'"
    and len: "length X' = length (filter ?p labels)"
    and sub: "set X' \<subseteq> set (slice_columns 9 11 features)" by blast
  have two: "\<forall>row \<in> set X'. length row = 2"
    using slice_columns_rows [OF assms(2,3)] sub by blast
  have "filter ?p labels \<noteq> []"
    using assms(4) by (simp add: filter_empty_conv)
  then have ne: "X' \<noteq> []" using len by auto
  have "(0::real) < 2 * pi" by simp
  from fit_transform_range [OF this ne two]
  obtain scaler Xs where f: "fit (0, 2 * pi) X' = Inr scaler"
    and t: "transform scaler X' = Inr Xs" and l: "length Xs = length X'"
    and r: "\<forall>row \<in> set Xs. length row = 2 \<and> (\<forall>v \<in> set row. 0 \<le> v \<and> v \<le> 2 * pi)"
    by blast
  have "get_data (features, labels) = Inr (Xs, filter ?p labels)"
    by (simp add: get_data_def boolean_index_self X' f t)
  with l len r show ?thesis by auto
qed

lemma get_data_tutorial_returns:
  assumes "features \<noteq> []" and "\<forall>row \<in> set features. length row = n" and "11 \<le> n"
  shows "\<exists>X. get_data_tutorial (features, labels) = Inr (X, labels)
           \<and> length X = length features
           \<and> (\<forall>row \<in> set X. length row = 2 \<and> (\<forall>v \<in> set row. 0 \<le> v \<and> v \<le> 2 * pi))"
proof -
  have ne: "slice_columns 9 11 features \<noteq> []"
    using assms(1) by (simp add: slice_columns_def)
  have "(0::real) < 2 * pi" by simp
  from fit_transform_range [OF this ne slice_columns_rows [OF assms(2,3)]]
  obtain scaler Xs where f: "fit (0, 2 * pi) (slice_columns 9 11 features) = Inr scaler"
    and t: "transform scaler (slice_columns 9 11 features) = Inr Xs"
    and l: "length Xs = length (slice_columns 9 11 features)"
    and r: "\<forall>row \<in> set Xs. length row = 2 \<and> (\<forall>v \<in> set row. 0 \<le> v \<and> v \<le> 2 * pi)"
    by blast
  have "get_data_tutorial (features, labels) = Inr (Xs, labels)"
    by (simp add: get_data_tutorial_def f t)
  moreover have "length Xs = length features" using l by (simp add: slice_columns_def)
  ultimately show ?thesis using r by auto
qed

lemma get_data_wine_small:
  "get_data wine_small = Inr ([[0, 0], [pi, 2 * pi], [2 * pi, pi]], [0, 1, 0])"
  by (simp add: get_data_def wine_small_def slice_columns_def boolean_index_def fit_def transform_def
      column_def handle_zeros_in_scale_def Let_def not_le)

text \<open>
  C4, as amended. On a table in the format of the wine data (every row with the same
  number \<open>n \<ge> 11\<close> of feature columns, one label per row, at least one wine of the first
  two classes) both loaders return, and every entry of the returned feature matrix lies
  in the closed interval from 0 to \<open>2\<pi>\<close>: it is at least 0 and at most \<open>2\<pi>\<close>. The
  labels returned by the challenge's loader are the labels below 2, in their order; the
  tutorial's loader returns all labels.
\<close>

theorem get_data_closed_range:
  assumes "length features = length labels"
    and "\<forall>row \<in> set features. length row = n" and "11 \<le> n"
    and "\<exists>l \<in> set labels. l < 2"
  shows "(\<exists>X y. get_data (features, labels) = Inr (X, y)
            \<and> (\<forall>row \<in> set X. \<forall>v \<in> set row. 0 \<le> v \<and> v \<le> 2 * pi)
            \<and> y = filter (\<lambda>l. l < 2) labels \<and> (\<forall>l \<in> set y. l < 2))
       \<and> (\<exists>X y. get_data_tutorial (features, labels) = Inr (X, y)
            \<and> (\<forall>row \<in> set X. \<forall>v \<in> set row. 0 \<le> v \<and> v \<le> 2 * pi)
            \<and> y = labels)"
proof
  from get_data_returns [OF assms]
  obtain X where "get_data (features, labels) = Inr (X, filter (\<lambda>l. l < 2) labels)"
    and "\<forall>row \<in> set X. length row = 2 \<and> (\<forall>v \<in> set row. 0 \<le> v \<and> v \<le> 2 * pi)"
    by blast
  then show "\<exists>X y. get_data (features, labels) = Inr (X, y)
            \<and> (\<forall>row \<in> set X. \<forall>v \<in> set row. 0 \<le> v \<and> v \<le> 2 * pi)
            \<and> y = filter (\<lambda>l. l < 2) labels \<and> (\<forall>l \<in> set y. l < 2)"
    by auto
next
  from assms(1,4) have "features \<noteq> []" by auto
  from get_data_tutorial_returns [OF this assms(2,3)]
  obtain X where "get_data_tutorial (features, labels) = Inr (X, labels)"
    and "\<forall>row \<in> set X. length row = 2 \<and> (\<forall>v \<in> set row. 0 \<le> v \<and> v \<le> 2 * pi)"
    by blast
  then show "\<exists>X y. get_data_tutorial (features, labels) = Inr (X, y)
            \<and> (\<forall>row \<in> set X. \<forall>v \<in> set row. 0 \<le> v \<and> v \<le> 2 * pi)
            \<and> y = labels"
    by auto
qed

theorem get_data_closed_range_witness:
  "length (fst wine_small) = length (snd wine_small)
   \<and> list_all (\<lambda>row. length row = 13) (fst wine_small)
   \<and> (11::nat) \<le> 13
   \<and> list_ex (\<lambda>l. l < 2) (snd wine_small)
   \<and> (\<exists>X y. get_data wine_small = Inr (X, y)
         \<and> (\<forall>row \<in> set X. \<forall>v \<in> set row. 0 \<le> v \<and> v \<le> 2 * pi)
         \<and> y = [0, 1, 0])
   \<and> (\<exists>X y. get_data_tutorial wine_small = Inr (X, y)
         \<and> (\<forall>row \<in> set X. \<forall>v \<in> set row. 0 \<le> v \<and> v \<le> 2 * pi)
         \<and> y = [0, 1, 2, 0])"
proof -
  have h1: "length (fst wine_small) = length (snd wine_small)"
    by (simp add: wine_small_def)
  have h2: "\<forall>row \<in> set (fst wine_small). length row = 13"
    by (simp add: wine_small_def)
  have h3: "(11::nat) \<le> 13" by simp
  have h4: "\<exists>l \<in> set (snd wine_small). l < 2"
    by (simp add: wine_small_def)
  have labels: "filter (\<lambda>l. l < 2) (snd wine_small) = [0, 1, 0]" "snd wine_small = [0, 1, 2, 0]"
    by (simp_all add: wine_small_def)
  note c = get_data_closed_range [OF h1 h2 h3 h4, unfolded prod.collapse]
  have "\<exists>X y. get_data wine_small = Inr (X, y)
         \<and> (\<forall>row \<in> set X. \<forall>v \<in> set row. 0 \<le> v \<and> v \<le> 2 * pi) \<and> y = [0, 1, 0]"
    using conjunct1 [OF c] labels(1) by auto
  moreover have "\<exists>X y. get_data_tutorial wine_small = Inr (X, y)
         \<and> (\<forall>row \<in> set X. \<forall>v \<in> set row. 0 \<le> v \<and> v \<le> 2 * pi) \<and> y = [0, 1, 2, 0]"
    using conjunct2 [OF c] labels(2) by auto
  moreover have "list_all (\<lambda>row. length row = 13) (fst wine_small)"
    using h2 by (simp add: list_all_iff)
  moreover have "list_ex (\<lambda>l. l < 2) (snd wine_small)"
    using h4 by (simp add: list_ex_iff)
  ultimately show ?thesis using h1 h3 by blast
qed

text \<open>
  C4 as stated fails: the scaler sends the greatest value of a column to \<open>2\<pi>\<close> itself
  (\<open>scaled_max_is_hi\<close>), which is not below \<open>2\<pi>\<close>. On the table \<open>wine_small\<close> the
  second wine has the greatest hue and the fourth the greatest colour intensity among
  the wines kept.
\<close>

theorem get_data_half_open_counterexample:
  "get_data wine_small = Inr ([[0, 0], [pi, 2 * pi], [2 * pi, pi]], [0, 1, 0])
   \<and> \<not> ([pi, 2 * pi] ! 1 < 2 * pi)"
  by (simp add: get_data_wine_small)

lemma boolean_index_zip:
  assumes "length xs = length ys"
  shows "boolean_index (map f xs) (map p ys)
           = Inr (map (\<lambda>(x, y). f x) (filter (\<lambda>(x, y). p y) (zip xs ys)))"
  using assms
  by (simp add: boolean_index_def zip_map_map filter_map comp_def case_prod_unfold)

text \<open>
  C10. On a table in the format of the wine data (every row with the same number
  \<open>n \<ge> 11\<close> of feature columns, one label per row, the labels among 0, 1 and 2, at least
  one wine of the first two classes) the challenge's loader returns. The label vector it
  returns is the label vector of the table with the labels of the third class removed, so
  every label is 0 or 1. The feature matrix it returns is not empty, has as many rows as
  the label vector has entries, and every row has exactly 2 columns: it is the rescaling,
  by the scaler fitted on them, of the columns 9 and 10 of the wines that are not of the
  third class, in the order of the table.
\<close>

theorem get_data_two_columns_binary_labels:
  assumes "length features = length labels"
    and "\<forall>row \<in> set features. length row = n" and "11 \<le> n"
    and "set labels \<subseteq> {0, 1, 2}"
    and "\<exists>l \<in> set labels. l < 2"
  shows "\<exists>X y. get_data (features, labels) = Inr (X, y)
           \<and> X \<noteq> []
           \<and> length X = length y
           \<and> (\<forall>row \<in> set X. length row = 2)
           \<and> y = filter (\<lambda>l. l \<noteq> 2) labels
           \<and> (\<forall>l \<in> set y. l = 0 \<or> l = 1)
           \<and> (\<exists>scaler.
                 fit (0, 2 * pi)
                   (map (\<lambda>(row, l). take 2 (drop 9 row))
                      (filter (\<lambda>(row, l). l \<noteq> 2) (zip features labels))) = Inr scaler
                 \<and> transform scaler
                     (map (\<lambda>(row, l). take 2 (drop 9 row))
                        (filter (\<lambda>(row, l). l \<noteq> 2) (zip features labels))) = Inr X)"
proof -
  let ?p = "\<lambda>l :: int. l < 2"
  let ?kept = "map (\<lambda>(row, l). take 2 (drop 9 row))
                 (filter (\<lambda>(row :: real list, l :: int). l \<noteq> 2) (zip features labels))"
  from get_data_returns [OF assms(1,2,3,5)]
  obtain X where X: "get_data (features, labels) = Inr (X, filter ?p labels)"
    and len: "length X = length (filter ?p labels)"
    and rows: "\<forall>row \<in> set X. length row = 2 \<and> (\<forall>v \<in> set row. 0 \<le> v \<and> v \<le> 2 * pi)"
    by blast
  have below: "l < 2 \<longleftrightarrow> l \<noteq> 2" if "l \<in> set labels" for l
    using that assms(4) by auto
  then have y: "filter ?p labels = filter (\<lambda>l. l \<noteq> 2) labels"
    by (intro filter_cong) auto
  have "filter (\<lambda>(row :: real list, l). ?p l) (zip features labels)
          = filter (\<lambda>(row, l). l \<noteq> 2) (zip features labels)"
    using below by (intro filter_cong) (auto dest: set_zip_rightD)
  then have kept: "boolean_index (slice_columns 9 11 features) (map ?p labels) = Inr ?kept"
    unfolding slice_columns_def using boolean_index_zip [OF assms(1), of _ ?p] by simp
  have "filter ?p labels \<noteq> []"
    using assms(5) by (simp add: filter_empty_conv)
  then have ne: "X \<noteq> []" using len by auto
  have binary: "l = 0 \<or> l = 1" if "l \<in> set (filter ?p labels)" for l
  proof -
    from that have "l \<in> {0, 1, 2}" and "l < 2" using assms(4) by auto
    then show ?thesis by auto
  qed
  have "\<exists>scaler. fit (0, 2 * pi) ?kept = Inr scaler \<and> transform scaler ?kept = Inr X"
    using X by (auto simp: get_data_def boolean_index_self kept split: sum.splits)
  with X len rows ne binary show ?thesis
    unfolding y by auto
qed

theorem get_data_two_columns_binary_labels_witness:
  "length (fst wine_small) = length (snd wine_small)
   \<and> list_all (\<lambda>row. length row = 13) (fst wine_small)
   \<and> (11::nat) \<le> 13
   \<and> set (snd wine_small) \<subseteq> {0, 1, 2}
   \<and> list_ex (\<lambda>l. l < 2) (snd wine_small)
   \<and> (\<exists>X y. get_data wine_small = Inr (X, y)
         \<and> X \<noteq> []
         \<and> length X = length y
         \<and> (\<forall>row \<in> set X. length row = 2)
         \<and> y = filter (\<lambda>l. l \<noteq> 2) (snd wine_small)
         \<and> (\<forall>l \<in> set y. l = 0 \<or> l = 1)
         \<and> (\<exists>scaler.
               fit (0, 2 * pi)
                 (map (\<lambda>(row, l). take 2 (drop 9 row))
                    (filter (\<lambda>(row, l). l \<noteq> 2) (zip (fst wine_small) (snd wine_small))))
                 = Inr scaler
               \<and> transform scaler
                   (map (\<lambda>(row, l). take 2 (drop 9 row))
                      (filter (\<lambda>(row, l). l \<noteq> 2) (zip (fst wine_small) (snd wine_small))))
                   = Inr X))"
proof -
  have h1: "length (fst wine_small) = length (snd wine_small)"
    by (simp add: wine_small_def)
  have h2: "\<forall>row \<in> set (fst wine_small). length row = 13"
    by (simp add: wine_small_def)
  have h3: "(11::nat) \<le> 13" by simp
  have h4: "set (snd wine_small) \<subseteq> {0, 1, 2}"
    by (simp add: wine_small_def)
  have h5: "\<exists>l \<in> set (snd wine_small). l < 2"
    by (simp add: wine_small_def)
  note c = get_data_two_columns_binary_labels [OF h1 h2 h3 h4 h5, unfolded prod.collapse]
  moreover have "list_all (\<lambda>row. length row = 13) (fst wine_small)"
    using h2 by (simp add: list_all_iff)
  moreover have "list_ex (\<lambda>l. l < 2) (snd wine_small)"
    using h5 by (simp add: list_ex_iff)
  ultimately show ?thesis using h1 h3 h4 by blast
qed

section \<open>Properties of the workflows\<close>























section \<open>Properties of the kernel circuit\<close>

lemma cos_sin_squared_complex: "complex_of_real (cos t) * complex_of_real (cos t)
     + complex_of_real (sin t) * complex_of_real (sin t) = 1"
proof -
  have "cos t * cos t + sin t * sin t = 1" by (rule sin_cos_squared_add3)
  from arg_cong [OF this, of complex_of_real]
  show ?thesis by (simp only: of_real_add of_real_mult of_real_1)
qed

lemma single_inverse:
  assumes "va * ua + vb * uc = 1" "va * ub + vb * ud = 0"
          "vc * ua + vd * uc = 0" "vc * ub + vd * ud = 1"
  shows "apply_single va vb vc vd w (apply_single ua ub uc ud w \<psi>) = \<psi>"
proof (cases \<psi>)
  case (State a b c d)
  have e1: "va * (ua * x + ub * y) + vb * (uc * x + ud * y) = x" for x y
  proof -
    have "va * (ua * x + ub * y) + vb * (uc * x + ud * y)
        = (va * ua + vb * uc) * x + (va * ub + vb * ud) * y" by (simp add: algebra_simps)
    then show ?thesis using assms by simp
  qed
  have e2: "vc * (ua * x + ub * y) + vd * (uc * x + ud * y) = y" for x y
  proof -
    have "vc * (ua * x + ub * y) + vd * (uc * x + ud * y)
        = (vc * ua + vd * uc) * x + (vc * ub + vd * ud) * y" by (simp add: algebra_simps)
    then show ?thesis using assms by simp
  qed
  show ?thesis unfolding State by (simp add: e1 e2)
qed


lemma gate_inverse: "apply_gate (adjoint_gate g) (apply_gate g \<psi>) = \<psi>"
proof (cases g)
  case (RX \<theta> w)
  show ?thesis unfolding RX
    apply simp
    apply (rule single_inverse)
    using cos_sin_squared_complex [of "\<theta> / 2"] by (simp_all add: algebra_simps)
next
  case (RY \<theta> w)
  show ?thesis unfolding RY
    apply simp
    apply (rule single_inverse)
    using cos_sin_squared_complex [of "\<theta> / 2"] by (simp_all add: algebra_simps)
next
  case (Hadamard w)
  have h: "complex_of_real (1 / sqrt 2) * complex_of_real (1 / sqrt 2) = 1 / 2"
    by (simp flip: of_real_mult)
  show ?thesis unfolding Hadamard
    apply simp
    apply (rule single_inverse)
    using h by (simp_all add: algebra_simps)
next
  case (MultiRZ \<theta>)
  have c: "cis (\<theta> / 2) * (cis (- (\<theta> / 2)) * x) = x" "cis (- (\<theta> / 2)) * (cis (\<theta> / 2) * x) = x" for x
    by (simp_all flip: mult.assoc add: cis_mult)
  show ?thesis unfolding MultiRZ by (cases \<psi>) (simp add: c)
qed





lemma fold_adjoint_inverse: "fold apply_gate (ops @ adjoint ops) \<psi> = \<psi>"
  by (induction ops arbitrary: \<psi>) (simp_all add: adjoint_def gate_inverse)





lemma probability_same: "probability_00 (execute (ops @ adjoint ops)) = 1"
  by (simp only: execute_def fold_adjoint_inverse) simp

lemma expval_range: "0 \<le> expval_OPERATOR u \<psi> \<and> expval_OPERATOR u \<psi> \<le> 1"
proof -
  have "length (filter (\<lambda>i. u i < probability_00 \<psi>) [0..<shots]) \<le> shots"
    using length_filter_le [of "\<lambda>i. u i < probability_00 \<psi>" "[0..<shots]"] by simp
  then show ?thesis by (simp add: expval_OPERATOR_def shots_def)
qed

lemma expval_certain:
  assumes "\<forall>i. u i < 1" and "probability_00 \<psi> = 1"
  shows "expval_OPERATOR u \<psi> = 1"
  using assms by (simp add: expval_OPERATOR_def shots_def)


lemma AngleEmbedding_cases:
  "(length x \<le> 2 \<and> AngleEmbedding x = Inr (rotations x))
   \<or> (2 < length x \<and> AngleEmbedding x = Inl ValueError)"
  by (simp add: AngleEmbedding_def)

lemma QAOAEmbedding_cases:
  "(length x \<le> 2 \<and> (\<exists>ops. QAOAEmbedding x W = Inr ops))
   \<or> (2 < length x \<and> QAOAEmbedding x W = Inl ValueError)"
  by (simp add: QAOAEmbedding_def Let_def)

text \<open>
  A rotation by \<open>2\<pi>\<close> is minus the identity, so the tutorial's circuit, with one layer
  of any weights, cannot tell the sample \<open>[2\<pi>, 0]\<close> from the sample \<open>[0, 0]\<close>.
\<close>

lemma qkernel_circuit_tutorial_period:
  assumes "\<forall>i. u i < 1"
  shows "qkernel_circuit_tutorial [(w0, w1, w2)] u [0, 0] [2 * pi, 0] = Inr 1"
proof -
  let ?ops1 = "[RX 0 0, RX 0 1, MultiRZ w0, RY w1 0, RY w2 1, RX 0 0, RX 0 1]"
  let ?ops2 = "[RX (2 * pi) 0, RX 0 1, MultiRZ w0, RY w1 0, RY w2 1, RX (2 * pi) 0, RX 0 1]"
  have q1: "QAOAEmbedding [0, 0] [(w0, w1, w2)] = Inr ?ops1"
    and q2: "QAOAEmbedding [2 * pi, 0] [(w0, w1, w2)] = Inr ?ops2"
    by (simp_all add: QAOAEmbedding_def rotations_def)
  have same: "fold apply_gate (adjoint ?ops2) \<psi> = fold apply_gate (adjoint ?ops1) \<psi>" for \<psi>
    by (cases \<psi>) (simp add: adjoint_def algebra_simps)
  have "execute (?ops1 @ adjoint ?ops2) = execute (?ops1 @ adjoint ?ops1)"
    unfolding execute_def fold_append comp_def by (rule same)
  then have "probability_00 (execute (?ops1 @ adjoint ?ops2)) = 1"
    by (simp only: probability_same)
  with assms have "expval_OPERATOR u (execute (?ops1 @ adjoint ?ops2)) = 1"
    by (rule expval_certain)
  then show ?thesis
    by (simp only: qkernel_circuit_tutorial_def q1 q2 sum.case)
qed

text \<open>
  C6, as amended. For all sample vectors \<open>x1\<close> and \<open>x2\<close> of at most two features, distinct
  or not, and all draws of the device, both circuits return a value in the closed
  interval from 0 to 1: at least 0 and at most 1.
\<close>

theorem qkernel_circuit_closed_range:
  assumes "length x1 \<le> 2" and "length x2 \<le> 2"
  shows "(\<exists>v. qkernel_circuit u x1 x2 = Inr v \<and> 0 \<le> v \<and> v \<le> 1)
       \<and> (\<exists>v. qkernel_circuit_tutorial CIRCUIT_PARAMS u x1 x2 = Inr v \<and> 0 \<le> v \<and> v \<le> 1)"
proof
  show "\<exists>v. qkernel_circuit u x1 x2 = Inr v \<and> 0 \<le> v \<and> v \<le> 1"
    using AngleEmbedding_cases [of x1] AngleEmbedding_cases [of x2] assms
    by (auto simp: qkernel_circuit_def expval_range)
  show "\<exists>v. qkernel_circuit_tutorial CIRCUIT_PARAMS u x1 x2 = Inr v \<and> 0 \<le> v \<and> v \<le> 1"
    using QAOAEmbedding_cases [of x1 CIRCUIT_PARAMS] QAOAEmbedding_cases [of x2 CIRCUIT_PARAMS]
      assms
    by (auto simp: qkernel_circuit_tutorial_def expval_range)
qed

theorem qkernel_circuit_closed_range_witness:
  "length [0, 0 :: real] \<le> 2 \<and> length [pi, 1] \<le> 2
   \<and> (\<exists>v. qkernel_circuit demo_draws [0, 0] [pi, 1] = Inr v \<and> 0 \<le> v \<and> v \<le> 1)
   \<and> (\<exists>v. qkernel_circuit_tutorial [(1, 2, 3)] demo_draws [0, 0] [pi, 1] = Inr v
         \<and> 0 \<le> v \<and> v \<le> 1)"
proof -
  have h1: "length [0, 0 :: real] \<le> 2" and h2: "length [pi, 1] \<le> 2" by simp_all
  from qkernel_circuit_closed_range [OF h1 h2, of demo_draws "[(1, 2, 3)]"] h1 h2
  show ?thesis by blast
qed

text \<open>
  C6 as stated fails: the samples \<open>[0, 0]\<close> and \<open>[2\<pi>, 0]\<close> are distinct, and the
  challenge's circuit returns exactly 1 on them (a rotation by \<open>2\<pi>\<close> changes the state
  by a sign only, so every shot finds 00); the tutorial's circuit does the same
  (\<open>qkernel_circuit_tutorial_period\<close>). Both 0 and \<open>2\<pi>\<close> are values that the loader
  produces.
\<close>

theorem qkernel_circuit_distinct_counterexample:
  "qkernel_circuit demo_draws [0, 0] [2 * pi, 0] = Inr 1 \<and> [0, 0] \<noteq> [2 * pi, 0]"
proof -
  have "execute (rotations [0, 0] @ adjoint (rotations [2 * pi, 0])) = State (- 1) 0 0 0"
    by (simp add: execute_def rotations_def adjoint_def)
  then show ?thesis
    by (simp add: qkernel_circuit_def AngleEmbedding_def expval_certain demo_draws_def)
qed

text \<open>
  C7. For every sample vector \<open>x\<close> (of at most two features) the kernel of \<open>x\<close> with
  itself is 1 on the simulated device, whatever the draws (numbers in \<open>[0, 1)\<close>) of its
  1000 shots: the adjoint embedding undoes the embedding, the state is 00 again and
  every shot finds it, so the value is within any sampling noise of 1.
\<close>

theorem qkernel_circuit_same_sample:
  assumes "\<forall>i. 0 \<le> u i \<and> u i < 1" and "length x \<le> 2"
  shows "qkernel_circuit u x x = Inr 1
       \<and> qkernel_circuit_tutorial CIRCUIT_PARAMS u x x = Inr 1"
proof
  from assms(1) have u: "\<forall>i. u i < 1" by simp
  show "qkernel_circuit u x x = Inr 1"
    using AngleEmbedding_cases [of x] assms(2) u
    by (auto simp: qkernel_circuit_def expval_certain probability_same)
  show "qkernel_circuit_tutorial CIRCUIT_PARAMS u x x = Inr 1"
    using QAOAEmbedding_cases [of x CIRCUIT_PARAMS] assms(2) u
    by (auto simp: qkernel_circuit_tutorial_def expval_certain probability_same)
qed

theorem qkernel_circuit_same_sample_witness:
  "(\<forall>i. 0 \<le> demo_draws i \<and> demo_draws i < 1) \<and> length [pi / 3, 1] \<le> 2
   \<and> qkernel_circuit demo_draws [pi / 3, 1] [pi / 3, 1] = Inr 1
   \<and> qkernel_circuit_tutorial [(1, 2, 3)] demo_draws [pi / 3, 1] [pi / 3, 1] = Inr 1"
proof -
  have h1: "\<forall>i. 0 \<le> demo_draws i \<and> demo_draws i < 1" by (simp add: demo_draws_def)
  have h2: "length [pi / 3, 1] \<le> 2" by simp
  from qkernel_circuit_same_sample [OF h1 h2, of "[(1, 2, 3)]"] h1 h2
  show ?thesis by blast
qed



end
